theory Spec2Isabelle
  imports Complex_Main
begin

section \<open>The map page: data model\<close>

text \<open>
  The development follows \<^verbatim>\<open>src/app/[locale]/map/page.tsx\<close>, the component
  \<^verbatim>\<open>MapBox\<close>. JavaScript numbers are modelled as exact reals: rounding of floating
  point arithmetic is not part of the model. A nullable value is an \<open>option\<close>.
\<close>

text \<open>
  One row of \<^verbatim>\<open>api.photos.getAllCoordinates\<close>. The source reads the fields
  \<^verbatim>\<open>longitude\<close>, \<^verbatim>\<open>latitude\<close> (both nullable: the source writes
  \<^verbatim>\<open>coord.longitude!\<close>, whose \<^verbatim>\<open>!\<close> has no effect at run time),
  \<^verbatim>\<open>url\<close>, \<^verbatim>\<open>blurData\<close>, \<^verbatim>\<open>width\<close> and \<^verbatim>\<open>height\<close>.
\<close>

record PhotoRecord =
  longitude :: "real option"
  latitude :: "real option"
  url :: string
  blurData :: "string option"
  width :: int
  height :: int

record PointGeometry =
  g_type :: string
  g_coordinates :: "real option list"

record FeatureProperties =
  p_id :: nat
  p_url :: string
  p_blurData :: "string option"
  p_width :: int
  p_height :: int

record Feature =
  f_type :: string
  f_geometry :: PointGeometry
  f_properties :: FeatureProperties

record FeatureCollection =
  fc_type :: string
  features :: "Feature list"

section \<open>Feature Builder\<close>

text \<open>
  \<^verbatim>\<open>Array.prototype.map\<close> with the two-argument callback \<^verbatim>\<open>(coord, index) => ...\<close>:
  the callback receives each element with its 0-based position.
\<close>

definition map_with_index :: "('a \<Rightarrow> nat \<Rightarrow> 'b) \<Rightarrow> 'a list \<Rightarrow> 'b list" where
  "map_with_index f xs = map (\<lambda>(x, i). f x i) (zip xs [0..<length xs])"

definition mkFeature :: "PhotoRecord \<Rightarrow> nat \<Rightarrow> Feature" where
  "mkFeature coord index =
     \<lparr> f_type = ''Feature'',
       f_geometry = \<lparr> g_type = ''Point'',
                      g_coordinates = [longitude coord, latitude coord] \<rparr>,
       f_properties = \<lparr> p_id = index,
                        p_url = url coord,
                        p_blurData = blurData coord,
                        p_width = width coord,
                        p_height = height coord \<rparr> \<rparr>"

text \<open>
  \<^verbatim>\<open>geojsonData\<close> (lines 80-99). \<^verbatim>\<open>coordinates\<close> is the query's data: undefined
  while loading (\<open>None\<close>), an array afterwards. An array, also the empty one, is truthy, so
  \<^verbatim>\<open>!coordinates\<close> holds for the undefined value only.
\<close>

definition geojsonData :: "PhotoRecord list option \<Rightarrow> FeatureCollection option" where
  "geojsonData coordinates =
     (case coordinates of
        None \<Rightarrow> None
      | Some cs \<Rightarrow>
          Some \<lparr> fc_type = ''FeatureCollection'',
                 features = map_with_index mkFeature cs \<rparr>)"

section \<open>Style Resolver: initial zoom\<close>

text \<open>\<^verbatim>\<open>mapZoom\<close> (line 59): \<^verbatim>\<open>isMobile ? 1 : 2\<close>.\<close>

definition mapZoom :: "bool \<Rightarrow> real" where
  "mapZoom isMobile = (if isMobile then 1 else 2)"

section \<open>JavaScript values and property lookup\<close>

text \<open>
  The values the component handles at run time. \<open>Builtin k\<close> stands for the member
  \<open>k\<close> that every plain object inherits from \<^verbatim>\<open>Object.prototype\<close> (a function
  object, or the prototype itself for \<^verbatim>\<open>__proto__\<close>); all of them are truthy.
\<close>

datatype jsval = Undefined | Null | Num real | Str string | Builtin string

fun truthy :: "jsval \<Rightarrow> bool" where
  "truthy Undefined = False"
| "truthy Null = False"
| "truthy (Num r) = (r \<noteq> 0)"
| "truthy (Str s) = (s \<noteq> [])"
| "truthy (Builtin k) = True"

definition Object_prototype_keys :: "string list" where
  "Object_prototype_keys =
     [''constructor'', ''__defineGetter__'', ''__defineSetter__'', ''hasOwnProperty'',
      ''__lookupGetter__'', ''__lookupSetter__'', ''isPrototypeOf'',
      ''propertyIsEnumerable'', ''toString'', ''valueOf'', ''__proto__'',
      ''toLocaleString'']"

text \<open>
  Reading \<^verbatim>\<open>obj[k]\<close> on a plain object: the object's own property if it has one,
  else the member inherited from \<^verbatim>\<open>Object.prototype\<close>, else undefined.
\<close>

definition get_property :: "(string \<rightharpoonup> jsval) \<Rightarrow> string \<Rightarrow> jsval" where
  "get_property obj k =
     (case obj k of
        Some v \<Rightarrow> v
      | None \<Rightarrow> if k \<in> set Object_prototype_keys then Builtin k else Undefined)"

text \<open>A property key is a string: the undefined value is converted to \<^verbatim>\<open>"undefined"\<close>.\<close>

definition to_property_key :: "string option \<Rightarrow> string" where
  "to_property_key k = (case k of None \<Rightarrow> ''undefined'' | Some s \<Rightarrow> s)"

text \<open>\<^verbatim>\<open>a ?? b\<close>: \<open>b\<close> when \<open>a\<close> is null or undefined, else \<open>a\<close>.\<close>

definition nullish :: "jsval \<Rightarrow> jsval \<Rightarrow> jsval" where
  "nullish a b = (if a = Undefined \<or> a = Null then b else a)"

text \<open>\<^verbatim>\<open>xs[i]\<close> on an array of numbers: undefined out of range.\<close>

definition index_js :: "real list \<Rightarrow> nat \<Rightarrow> jsval" where
  "index_js xs i = (if i < length xs then Num (xs ! i) else Undefined)"

section \<open>Style Resolver: map style\<close>

text \<open>
  \<^verbatim>\<open>mapStyle\<close> (lines 49-55). \<^verbatim>\<open>resolvedTheme\<close> is a string or undefined; the cast
  \<^verbatim>\<open>as keyof typeof styles\<close> has no effect at run time.
\<close>

definition styles :: "string \<rightharpoonup> jsval" where
  "styles = [''light'' \<mapsto> Str ''mapbox://styles/mapbox/light-v11'',
             ''dark'' \<mapsto> Str ''mapbox://styles/mapbox/dark-v11'']"

definition mapStyle :: "string option \<Rightarrow> jsval" where
  "mapStyle resolvedTheme =
     (let v = get_property styles (to_property_key resolvedTheme)
      in if truthy v then v else get_property styles ''light'')"

section \<open>Environment Sync\<close>

text \<open>
  The inline style of the document's root element, as the source uses it: a declaration
  block from property names to non-empty values. \<^verbatim>\<open>getPropertyValue\<close> answers the
  empty string for a property that is not set, and \<^verbatim>\<open>setProperty\<close> with the empty
  string removes the property.
\<close>

type_synonym style = "string \<rightharpoonup> string"

definition getPropertyValue :: "style \<Rightarrow> string \<Rightarrow> string" where
  "getPropertyValue st n = (case st n of None \<Rightarrow> [] | Some v \<Rightarrow> v)"

definition setProperty :: "style \<Rightarrow> string \<Rightarrow> string \<Rightarrow> style" where
  "setProperty st n v = (if v = [] then st(n := None) else st(n \<mapsto> v))"

text \<open>
  The theme effect (lines 61-78). Running the effect reads the two variables, overwrites
  them, and returns the cleanup closure, which React runs when \<^verbatim>\<open>resolvedTheme\<close>
  changes or the component unmounts. The model returns the new root style and the cleanup
  (\<open>rootStyle\<close> is the source's \<^verbatim>\<open>root.style\<close>).
\<close>

definition themeEffect :: "string option \<Rightarrow> style \<Rightarrow> style \<times> (style \<Rightarrow> style)" where
  "themeEffect resolvedTheme rootStyle =
     (let originalBackground = getPropertyValue rootStyle ''--background'';
          originalForeground = getPropertyValue rootStyle ''--foreground'';
          rootStyle' = (if resolvedTheme = Some ''dark''
                   then setProperty (setProperty rootStyle ''--background'' ''#333333'')
                          ''--foreground'' ''#f0f0f0''
                   else setProperty (setProperty rootStyle ''--background'' ''#f5f5f5'')
                          ''--foreground'' ''#333333'')
      in (rootStyle',
          \<lambda>r. setProperty (setProperty r ''--background'' originalBackground)
                 ''--foreground'' originalForeground))"

text \<open>
  The life of the effect over a sequence of themes: for each theme the effect runs, and
  its cleanup runs (on the root style as the effect left it) before the effect of the next
  theme, or at unmount after the last one.
\<close>

fun theme_lifecycle :: "style \<Rightarrow> string option list \<Rightarrow> style" where
  "theme_lifecycle st [] = st"
| "theme_lifecycle st (t # ts) =
     (case themeEffect t st of (st', cleanup) \<Rightarrow> theme_lifecycle (cleanup st') ts)"

section \<open>Selection Controller\<close>

text \<open>
  What the map reports on a click: \<^verbatim>\<open>event.features\<close> is undefined or an array of
  GeoJSON features, each with a geometry (one of the GeoJSON geometry types) and
  properties that are null or a plain object.
\<close>

datatype geometry =
    Point "real list"
  | MultiPoint "real list list"
  | LineString "real list list"
  | MultiLineString "real list list list"
  | Polygon "real list list list"
  | MultiPolygon "real list list list list"
  | GeometryCollection "geometry list"

record MapFeature =
  geometry :: geometry
  properties :: "(string \<rightharpoonup> jsval) option"

record MapMouseEvent =
  ev_features :: "MapFeature list option"

text \<open>The state \<^verbatim>\<open>popupInfo\<close> (lines 29-36): null or one record of six fields.\<close>

record PopupInfo =
  pi_longitude :: jsval
  pi_latitude :: jsval
  pi_url :: jsval
  pi_blurData :: jsval
  pi_width :: jsval
  pi_height :: jsval

text \<open>\<^verbatim>\<open>event.features?.[0]\<close>: undefined without an array, and on the empty array.\<close>

definition first_feature :: "MapMouseEvent \<Rightarrow> MapFeature option" where
  "first_feature event =
     (case ev_features event of
        None \<Rightarrow> None
      | Some [] \<Rightarrow> None
      | Some (f # rest) \<Rightarrow> Some f)"

text \<open>\<^verbatim>\<open>feature.properties?.k\<close>.\<close>

definition property_of :: "MapFeature \<Rightarrow> string \<Rightarrow> jsval" where
  "property_of feature k =
     (case properties feature of None \<Rightarrow> Undefined | Some ps \<Rightarrow> get_property ps k)"

text \<open>
  \<^verbatim>\<open>onClick\<close> (lines 101-115): the new value of \<^verbatim>\<open>popupInfo\<close>. The handler calls
  \<^verbatim>\<open>setPopupInfo\<close> with a value that does not read the previous state, which the
  second argument shows.
\<close>

definition onClick :: "MapMouseEvent \<Rightarrow> PopupInfo option \<Rightarrow> PopupInfo option" where
  "onClick event popupInfo =
     (case first_feature event of
        Some feature \<Rightarrow>
          (case geometry feature of
             Point coordinates \<Rightarrow>
               Some \<lparr> pi_longitude = index_js coordinates 0,
                      pi_latitude = index_js coordinates 1,
                      pi_url = property_of feature ''url'',
                      pi_blurData = property_of feature ''blurData'',
                      pi_width = property_of feature ''width'',
                      pi_height = property_of feature ''height'' \<rparr>
           | _ \<Rightarrow> None)
      | None \<Rightarrow> None)"

text \<open>The popup's \<^verbatim>\<open>onClose\<close> (line 213).\<close>

definition onClose :: "PopupInfo option \<Rightarrow> PopupInfo option" where
  "onClose popupInfo = None"

text \<open>
  The popup element (lines 208-229) with the image it holds: what is rendered for a value
  of \<^verbatim>\<open>popupInfo\<close>, as the list of popups in the output.
\<close>

record PopupView =
  pv_longitude :: jsval
  pv_latitude :: jsval
  pv_anchor :: string
  pv_closeOnClick :: bool
  pv_offset :: "int \<times> int"
  img_src :: jsval
  img_placeholder :: string
  img_blurDataURL :: jsval
  img_width :: jsval
  img_height :: jsval

definition render_popup :: "PopupInfo option \<Rightarrow> PopupView list" where
  "render_popup popupInfo =
     (case popupInfo of
        None \<Rightarrow> []
      | Some info \<Rightarrow>
          [\<lparr> pv_longitude = pi_longitude info,
             pv_latitude = pi_latitude info,
             pv_anchor = ''bottom'',
             pv_closeOnClick = False,
             pv_offset = (0, -15),
             img_src = pi_url info,
             img_placeholder = ''blur'',
             img_blurDataURL = nullish (pi_blurData info) (Str []),
             img_width = pi_width info,
             img_height = pi_height info \<rparr>])"

section \<open>Style Resolver: paint expressions of the three layers\<close>

text \<open>
  A paint expression of the source is the array
  \<^verbatim>\<open>["interpolate", ["linear"], input, x0, y0, x1, y1]\<close>: an interpolation kind, the
  input (\<^verbatim>\<open>["zoom"]\<close> or \<^verbatim>\<open>["get", key]\<close>) and the stops, each an input value with
  its output.
\<close>

datatype interpolation = Linear

datatype expr_input = Zoom | Get string

datatype 'a expression = Interpolate interpolation expr_input "(real \<times> 'a) list"

text \<open>The three \<^verbatim>\<open>circle-radius\<close> expressions (lines 141-149, 157-165, 183-191).\<close>

definition hitbox_circle_radius :: "real expression" where
  "hitbox_circle_radius = Interpolate Linear Zoom [(0, 10), (22, 30)]"

definition glow_circle_radius :: "real expression" where
  "glow_circle_radius = Interpolate Linear Zoom [(0, 5), (22, 20)]"

definition point_circle_radius :: "real expression" where
  "point_circle_radius = Interpolate Linear Zoom [(0, 3), (22, 12)]"

text \<open>
  The upper stop of both colour ramps, \<^verbatim>\<open>coordinates?.length ?? 1\<close>: the length of the
  array, and 1 only when \<^verbatim>\<open>coordinates\<close> is undefined (a length, also 0, is neither null
  nor undefined).
\<close>

definition ramp_upper :: "PhotoRecord list option \<Rightarrow> real" where
  "ramp_upper coordinates =
     (case coordinates of None \<Rightarrow> 1 | Some cs \<Rightarrow> real (length cs))"

text \<open>The two \<^verbatim>\<open>circle-color\<close> expressions (lines 166-174, 192-200).\<close>

definition glow_circle_color :: "PhotoRecord list option \<Rightarrow> string expression" where
  "glow_circle_color coordinates =
     Interpolate Linear (Get ''id'')
       [(0, ''#FF9900''), (ramp_upper coordinates, ''#00FFFF'')]"

definition point_circle_color :: "PhotoRecord list option \<Rightarrow> string expression" where
  "point_circle_color coordinates =
     Interpolate Linear (Get ''id'')
       [(0, ''#FF6600''), (ramp_upper coordinates, ''#00CCFF'')]"

record Layer =
  layer_id :: string
  layer_type :: string
  circle_radius :: "real expression"
  circle_color :: "string expression option"
  circle_opacity :: real

text \<open>
  The layers handed to the map (lines 135-207): none while \<^verbatim>\<open>geojsonData\<close> is null, the
  three circle layers over the feature collection otherwise.
\<close>

definition layers :: "PhotoRecord list option \<Rightarrow> Layer list" where
  "layers coordinates =
     (case geojsonData coordinates of
        None \<Rightarrow> []
      | Some fc \<Rightarrow>
          [\<lparr> layer_id = ''point-hitbox'', layer_type = ''circle'',
             circle_radius = hitbox_circle_radius,
             circle_color = None,
             circle_opacity = 0 \<rparr>,
           \<lparr> layer_id = ''point-glow'', layer_type = ''circle'',
             circle_radius = glow_circle_radius,
             circle_color = Some (glow_circle_color coordinates),
             circle_opacity = 4 / 10 \<rparr>,
           \<lparr> layer_id = ''point'', layer_type = ''circle'',
             circle_radius = point_circle_radius,
             circle_color = Some (point_circle_color coordinates),
             circle_opacity = 8 / 10 \<rparr>])"

section \<open>Evaluation of a paint expression\<close>

text \<open>
  Modelled from the spec: the evaluation of an interpolate expression. The source only
  builds the expressions; the map engine that evaluates them is a library outside the
  repository. The spec describes the colour ramp as "a linear interpolation between a
  start color and an end color over the domain" and the radius as interpolated over the
  zoom level, and asks that the range be not "degenerate/inverted". The model: an
  expression is well formed when its stops are in strictly ascending order of input; below
  the first stop its value is the first output, above the last stop the last output, and
  between two stops the linear mix of their outputs. A colour is its three channels
  (red, green, blue, each from 0 to 255), written \<^verbatim>\<open>#RRGGBB\<close> in the source, and two
  colours are mixed channel by channel.
\<close>

type_synonym color = "real \<times> real \<times> real"

definition hex_digit :: "char \<Rightarrow> nat option" where
  "hex_digit c =
     map_of [(CHR ''0'', 0), (CHR ''1'', 1), (CHR ''2'', 2), (CHR ''3'', 3),
             (CHR ''4'', 4), (CHR ''5'', 5), (CHR ''6'', 6), (CHR ''7'', 7),
             (CHR ''8'', 8), (CHR ''9'', 9), (CHR ''A'', 10), (CHR ''B'', 11),
             (CHR ''C'', 12), (CHR ''D'', 13), (CHR ''E'', 14), (CHR ''F'', 15),
             (CHR ''a'', 10), (CHR ''b'', 11), (CHR ''c'', 12), (CHR ''d'', 13),
             (CHR ''e'', 14), (CHR ''f'', 15)] c"

definition hex_byte :: "char \<Rightarrow> char \<Rightarrow> real option" where
  "hex_byte hi lo =
     (case (hex_digit hi, hex_digit lo) of
        (Some h, Some l) \<Rightarrow> Some (real (16 * h + l))
      | _ \<Rightarrow> None)"

fun parse_color :: "string \<Rightarrow> color option" where
  "parse_color [h, r1, r2, g1, g2, b1, b2] =
     (if h = CHR ''#'' then
        (case (hex_byte r1 r2, hex_byte g1 g2, hex_byte b1 b2) of
           (Some r, Some g, Some b) \<Rightarrow> Some (r, g, b)
         | _ \<Rightarrow> None)
      else None)"
| "parse_color s = None"

definition mix_number :: "real \<Rightarrow> real \<Rightarrow> real \<Rightarrow> real" where
  "mix_number t a b = a * (1 - t) + b * t"

definition mix_color :: "real \<Rightarrow> color \<Rightarrow> color \<Rightarrow> color" where
  "mix_color t a b =
     (case (a, b) of
        ((r1, g1, b1), (r2, g2, b2)) \<Rightarrow>
          (mix_number t r1 r2, mix_number t g1 g2, mix_number t b1 b2))"

fun strictly_ascending :: "real list \<Rightarrow> bool" where
  "strictly_ascending [] = True"
| "strictly_ascending [x] = True"
| "strictly_ascending (x # y # rest) = (x < y \<and> strictly_ascending (y # rest))"

fun interpolate_stops ::
  "(real \<Rightarrow> 'a \<Rightarrow> 'a \<Rightarrow> 'a) \<Rightarrow> (real \<times> 'a) list \<Rightarrow> real \<Rightarrow> 'a option" where
  "interpolate_stops mix [] v = None"
| "interpolate_stops mix [(x0, y0)] v = Some y0"
| "interpolate_stops mix ((x0, y0) # (x1, y1) # rest) v =
     (if v \<le> x0 then Some y0
      else if v < x1 then Some (mix ((v - x0) / (x1 - x0)) y0 y1)
      else interpolate_stops mix ((x1, y1) # rest) v)"

text \<open>
  The input of an expression for a feature at a zoom level: the zoom level, or the
  feature's property when it is a number.
\<close>

definition input_value :: "expr_input \<Rightarrow> real \<Rightarrow> Feature \<Rightarrow> real option" where
  "input_value inp z f =
     (case inp of
        Zoom \<Rightarrow> Some z
      | Get k \<Rightarrow>
          if k = ''id'' then Some (real (p_id (f_properties f)))
          else if k = ''width'' then Some (real_of_int (p_width (f_properties f)))
          else if k = ''height'' then Some (real_of_int (p_height (f_properties f)))
          else None)"

text \<open>The result is \<open>None\<close> when the expression is rejected or cannot be evaluated.\<close>

definition evaluate ::
  "(real \<Rightarrow> 'a \<Rightarrow> 'a \<Rightarrow> 'a) \<Rightarrow> 'a expression \<Rightarrow> real \<Rightarrow> Feature \<Rightarrow> 'a option" where
  "evaluate mix e z f =
     (case e of
        Interpolate Linear inp stops \<Rightarrow>
          if strictly_ascending (map fst stops) then
            (case input_value inp z f of
               None \<Rightarrow> None
             | Some v \<Rightarrow> interpolate_stops mix stops v)
          else None)"

definition radius_at :: "real expression \<Rightarrow> real \<Rightarrow> Feature \<Rightarrow> real option" where
  "radius_at e z f = evaluate mix_number e z f"

fun parse_stops :: "(real \<times> string) list \<Rightarrow> (real \<times> color) list option" where
  "parse_stops [] = Some []"
| "parse_stops ((x, c) # rest) =
     (case (parse_color c, parse_stops rest) of
        (Some col, Some crest) \<Rightarrow> Some ((x, col) # crest)
      | _ \<Rightarrow> None)"

definition color_at :: "string expression \<Rightarrow> real \<Rightarrow> Feature \<Rightarrow> color option" where
  "color_at e z f =
     (case e of
        Interpolate k inp stops \<Rightarrow>
          (case parse_stops stops of
             None \<Rightarrow> None
           | Some cstops \<Rightarrow> evaluate mix_color (Interpolate k inp cstops) z f))"

text \<open>The colour a layer's ramp gives each feature of the built collection, in order.\<close>

definition layer_colors ::
  "string expression \<Rightarrow> PhotoRecord list option \<Rightarrow> real \<Rightarrow> color option list" where
  "layer_colors e coordinates z =
     (case geojsonData coordinates of
        None \<Rightarrow> []
      | Some fc \<Rightarrow> map (color_at e z) (features fc))"

section \<open>Locale-conditional control attachment\<close>









section \<open>The scenario dataset\<close>

text \<open>The two records of the spec's scenario (no blur placeholder is given there).\<close>

definition scenario_records :: "PhotoRecord list" where
  "scenario_records =
     [\<lparr> longitude = Some (11638 / 100), latitude = Some (399 / 10), url = ''a.jpg'',
        blurData = None, width = 100, height = 200 \<rparr>,
      \<lparr> longitude = Some (12147 / 100), latitude = Some (3123 / 100), url = ''b.jpg'',
        blurData = None, width = 50, height = 50 \<rparr>]"

text \<open>
  What the map reports for a click on each of the two features, the second one with a
  blur placeholder, and for a click on a line of the base map.
\<close>

definition hit_feature_0 :: MapFeature where
  "hit_feature_0 =
     \<lparr> geometry = Point [11638 / 100, 399 / 10],
       properties = Some [''id'' \<mapsto> Num 0, ''url'' \<mapsto> Str ''a.jpg'',
                          ''width'' \<mapsto> Num 100, ''height'' \<mapsto> Num 200] \<rparr>"

definition hit_feature_1 :: MapFeature where
  "hit_feature_1 =
     \<lparr> geometry = Point [12147 / 100, 3123 / 100],
       properties = Some [''id'' \<mapsto> Num 1, ''url'' \<mapsto> Str ''b.jpg'',
                          ''blurData'' \<mapsto> Str ''data:image/png;base64,AAAA'',
                          ''width'' \<mapsto> Num 50, ''height'' \<mapsto> Num 50] \<rparr>"

definition hit_line :: MapFeature where
  "hit_line = \<lparr> geometry = LineString [[0, 0], [1, 1]], properties = None \<rparr>"

section \<open>Properties of the Feature Builder\<close>

lemma length_map_with_index: "length (map_with_index f xs) = length xs"
  by (simp add: map_with_index_def)

lemma nth_map_with_index:
  "i < length xs \<Longrightarrow> map_with_index f xs ! i = f (xs ! i) i"
  by (simp add: map_with_index_def)

text \<open>
  Claim C3. The Feature Builder returns null for a dataset that is not yet available.
  For a dataset that is an ordered sequence of records it returns a collection with as
  many features as there are records, in the order of the records (feature \<open>i\<close> is built
  from record \<open>i\<close>), and the index of every feature is its 0-based position.
\<close>

theorem geojsonData_builds_in_order:
  "geojsonData None = None \<and>
   (\<exists>fc. geojsonData (Some cs) = Some fc \<and>
         length (features fc) = length cs \<and>
         (\<forall>i < length cs.
            features fc ! i = mkFeature (cs ! i) i \<and>
            p_id (f_properties (features fc ! i)) = i \<and>
            g_coordinates (f_geometry (features fc ! i))
              = [longitude (cs ! i), latitude (cs ! i)] \<and>
            p_url (f_properties (features fc ! i)) = url (cs ! i) \<and>
            p_blurData (f_properties (features fc ! i)) = blurData (cs ! i) \<and>
            p_width (f_properties (features fc ! i)) = width (cs ! i) \<and>
            p_height (f_properties (features fc ! i)) = height (cs ! i)))"
  by (simp add: geojsonData_def length_map_with_index nth_map_with_index mkFeature_def)

text \<open>The builder on the two records of the scenario: the second feature, at position 1.\<close>

theorem geojsonData_builds_in_order_witness:
  "\<exists>fc. geojsonData (Some scenario_records) = Some fc \<and>
        length (features fc) = 2 \<and>
        p_id (f_properties (features fc ! 1)) = 1 \<and>
        p_url (f_properties (features fc ! 1)) = ''b.jpg''"
proof -
  from geojsonData_builds_in_order [of scenario_records]
  obtain fc where fc: "geojsonData (Some scenario_records) = Some fc"
    and len: "length (features fc) = length scenario_records"
    and each: "\<forall>i < length scenario_records.
            features fc ! i = mkFeature (scenario_records ! i) i \<and>
            p_id (f_properties (features fc ! i)) = i \<and>
            g_coordinates (f_geometry (features fc ! i))
              = [longitude (scenario_records ! i), latitude (scenario_records ! i)] \<and>
            p_url (f_properties (features fc ! i)) = url (scenario_records ! i) \<and>
            p_blurData (f_properties (features fc ! i)) = blurData (scenario_records ! i) \<and>
            p_width (f_properties (features fc ! i)) = width (scenario_records ! i) \<and>
            p_height (f_properties (features fc ! i)) = height (scenario_records ! i)"
    by blast
  have n: "length scenario_records = 2" by (simp add: scenario_records_def)
  have "(1::nat) < length scenario_records" using n by simp
  with each have "p_id (f_properties (features fc ! 1)) = 1"
    and "p_url (f_properties (features fc ! 1)) = url (scenario_records ! 1)" by blast+
  moreover have "url (scenario_records ! 1) = ''b.jpg''" by (simp add: scenario_records_def)
  ultimately show ?thesis using fc len n by simp
qed

section \<open>Properties of the Style Resolver\<close>

subsection \<open>Initial zoom\<close>

text \<open>
  Claim C8. The initial zoom of the mobile viewport class is strictly less than the
  initial zoom of the desktop viewport class.
\<close>

theorem mapZoom_mobile_less_desktop: "mapZoom True < mapZoom False"
  by (simp add: mapZoom_def)

subsection \<open>Map style\<close>

text \<open>
  What the lookup does for the themes it is written for: dark gives the dark style, and
  light, the undefined theme and every name that a plain object does not inherit give the
  light style.
\<close>

lemma mapStyle_known_themes:
  "mapStyle (Some ''dark'') = Str ''mapbox://styles/mapbox/dark-v11'' \<and>
   mapStyle (Some ''light'') = Str ''mapbox://styles/mapbox/light-v11'' \<and>
   mapStyle None = Str ''mapbox://styles/mapbox/light-v11''"
  by (simp add: mapStyle_def get_property_def styles_def to_property_key_def
      Object_prototype_keys_def)

lemma mapStyle_other_themes:
  "t \<notin> set Object_prototype_keys \<Longrightarrow> t \<noteq> ''dark'' \<Longrightarrow>
   mapStyle (Some t) = Str ''mapbox://styles/mapbox/light-v11''"
  by (simp add: mapStyle_def get_property_def styles_def to_property_key_def)

text \<open>
  Claim C7 says that every theme other than dark resolves to the light style. The lookup
  \<^verbatim>\<open>styles[resolvedTheme]\<close> also finds the members that the object literal inherits, and
  they are truthy, so the fallback \<^verbatim>\<open>|| styles.light\<close> is not taken: for the theme
  name \<^verbatim>\<open>constructor\<close> the result is the inherited member, not the light style.
\<close>

theorem mapStyle_inherited_key:
  "mapStyle (Some ''constructor'') = Builtin ''constructor'' \<and>
   mapStyle (Some ''constructor'') \<noteq> Str ''mapbox://styles/mapbox/light-v11''"
  by (simp add: mapStyle_def get_property_def styles_def to_property_key_def
      Object_prototype_keys_def)

subsection \<open>Colour ramps\<close>

text \<open>
  Claim C1 says that for a dataset of size 0 the domain of the colour ramps is [0,1]. For
  the empty array the three layers are rendered, the upper stop of both ramps is the
  length 0, and the domain is [0,0]: the fallback \<^verbatim>\<open>?? 1\<close> is taken for an undefined
  dataset only.
\<close>

theorem empty_dataset_ramp_domain:
  "ramp_upper (Some []) = 0 \<and>
   glow_circle_color (Some []) =
     Interpolate Linear (Get ''id'') [(0, ''#FF9900''), (0, ''#00FFFF'')] \<and>
   point_circle_color (Some []) =
     Interpolate Linear (Get ''id'') [(0, ''#FF6600''), (0, ''#00CCFF'')] \<and>
   map circle_color (layers (Some [])) =
     [None, Some (glow_circle_color (Some [])), Some (point_circle_color (Some []))]"
  by (simp add: point_circle_color_def glow_circle_color_def ramp_upper_def layers_def
      geojsonData_def)

text \<open>
  Its stops are not in strictly ascending order, so the evaluation rejects both ramps;
  the undefined dataset has the domain [0,1], and renders no layer.
\<close>

lemma empty_dataset_ramp_rejected:
  "color_at (glow_circle_color (Some [])) z f = None \<and>
   color_at (point_circle_color (Some [])) z f = None"
  by (simp add: point_circle_color_def glow_circle_color_def ramp_upper_def color_at_def
      evaluate_def hex_byte_def hex_digit_def)

lemma undefined_dataset_ramp_domain: "ramp_upper None = 1 \<and> layers None = []"
  by (simp add: ramp_upper_def layers_def geojsonData_def)

lemma scenario_point_colors:
  "layer_colors (point_circle_color (Some scenario_records)) (Some scenario_records) z
     = [Some (255, 102, 0), Some (255 / 2, 153, 255 / 2)]"
  by (simp add: layer_colors_def geojsonData_def map_with_index_def scenario_records_def
      point_circle_color_def ramp_upper_def color_at_def evaluate_def input_value_def
      mkFeature_def hex_byte_def hex_digit_def mix_color_def mix_number_def upt_rec)

lemma scenario_glow_colors:
  "layer_colors (glow_circle_color (Some scenario_records)) (Some scenario_records) z
     = [Some (255, 153, 0), Some (255 / 2, 204, 255 / 2)]"
  by (simp add: layer_colors_def geojsonData_def map_with_index_def scenario_records_def
      glow_circle_color_def ramp_upper_def color_at_def evaluate_def input_value_def
      mkFeature_def hex_byte_def hex_digit_def mix_color_def mix_number_def upt_rec)

lemma ramp_end_colors:
  "parse_color ''#FF9900'' = Some (255, 153, 0) \<and> parse_color ''#00FFFF'' = Some (0, 255, 255) \<and>
   parse_color ''#FF6600'' = Some (255, 102, 0) \<and> parse_color ''#00CCFF'' = Some (0, 204, 255)"
  by (simp add: hex_byte_def hex_digit_def)

text \<open>
  Claim C2 as the spec states it fails in its last part: with two records the domain of
  the ramp is [0,2], so the feature of index 1 is at the middle of the domain and its
  colour on the point layer is not the end colour \<^verbatim>\<open>#00CCFF\<close>.
\<close>

theorem scenario_feature1_not_end_color:
  "layer_colors (point_circle_color (Some scenario_records)) (Some scenario_records) 2 ! 1
     \<noteq> parse_color ''#00CCFF''"
  by (simp add: scenario_point_colors hex_byte_def hex_digit_def)

text \<open>
  Claim C2, amended. For the two records of the scenario the built collection has exactly
  two features, of indices 0 and 1; on both layers the colour of feature 0 is the start
  colour of the ramp, and the colour of feature 1 is the colour half-way between the start
  colour and the end colour, at every zoom level.
\<close>

theorem scenario_collection_and_colors:
  "map_option (map (p_id \<circ> f_properties) \<circ> features) (geojsonData (Some scenario_records))
     = Some [0, 1] \<and>
   layer_colors (point_circle_color (Some scenario_records)) (Some scenario_records) z
     = [parse_color ''#FF6600'', Some (mix_color (1 / 2) (255, 102, 0) (0, 204, 255))] \<and>
   layer_colors (glow_circle_color (Some scenario_records)) (Some scenario_records) z
     = [parse_color ''#FF9900'', Some (mix_color (1 / 2) (255, 153, 0) (0, 255, 255))] \<and>
   parse_color ''#00CCFF'' = Some (0, 204, 255) \<and>
   parse_color ''#00FFFF'' = Some (0, 255, 255)"
proof -
  have "map_option (map (p_id \<circ> f_properties) \<circ> features)
          (geojsonData (Some scenario_records)) = Some [0, 1]"
    by (simp add: geojsonData_def map_with_index_def scenario_records_def mkFeature_def
        upt_rec)
  moreover have "mix_color (1 / 2) (255, 102, 0) (0, 204, 255) = (255 / 2, 153, 255 / 2)"
    and "mix_color (1 / 2) (255, 153, 0) (0, 255, 255) = (255 / 2, 204, 255 / 2)"
    by (simp_all add: mix_color_def mix_number_def)
  ultimately show ?thesis
    by (simp add: scenario_point_colors scenario_glow_colors hex_byte_def hex_digit_def)
qed

subsection \<open>Circle radii\<close>

lemma radius_two_stops:
  "x0 < x1 \<Longrightarrow>
   radius_at (Interpolate Linear Zoom [(x0, y0), (x1, y1)]) z f =
     Some (if z \<le> x0 then y0
           else if z < x1
             then y0 * (1 - (z - x0) / (x1 - x0)) + y1 * ((z - x0) / (x1 - x0))
           else y1)"
  by (simp add: radius_at_def evaluate_def input_value_def mix_number_def)

lemma hitbox_radius:
  "radius_at hitbox_circle_radius z f =
     Some (if z \<le> 0 then 10 else if z < 22 then 10 + 20 * z / 22 else 30)"
  by (simp add: hitbox_circle_radius_def radius_two_stops field_simps)

lemma glow_radius:
  "radius_at glow_circle_radius z f =
     Some (if z \<le> 0 then 5 else if z < 22 then 5 + 15 * z / 22 else 20)"
  by (simp add: glow_circle_radius_def radius_two_stops field_simps)

lemma point_radius:
  "radius_at point_circle_radius z f =
     Some (if z \<le> 0 then 3 else if z < 22 then 3 + 9 * z / 22 else 12)"
  by (simp add: point_circle_radius_def radius_two_stops field_simps)

text \<open>
  Claim C6. At every zoom level each of the three layers has a radius; the radius of each
  layer does not decrease when the zoom level grows, and the radius of the hit-target
  layer is strictly larger than the radius of the glow layer and of the point layer. This
  holds at every zoom level, so in particular on the domain from 0 to 22 of the stops.
\<close>

theorem circle_radius_monotone_hitbox_largest:
  assumes "z \<le> z'"
  shows "\<exists>h g p h' g' p'.
      radius_at hitbox_circle_radius z f = Some h \<and>
      radius_at hitbox_circle_radius z' f = Some h' \<and>
      radius_at glow_circle_radius z f = Some g \<and>
      radius_at glow_circle_radius z' f = Some g' \<and>
      radius_at point_circle_radius z f = Some p \<and>
      radius_at point_circle_radius z' f = Some p' \<and>
      h \<le> h' \<and> g \<le> g' \<and> p \<le> p' \<and> g < h \<and> p < h"
  using assms by (simp add: hitbox_radius glow_radius point_radius)

text \<open>The two ends of the domain, for the first feature of the scenario.\<close>

theorem circle_radius_monotone_hitbox_largest_witness:
  "(0::real) \<le> 22 \<and>
   (\<exists>h g p h' g' p'.
      radius_at hitbox_circle_radius 0 (mkFeature (scenario_records ! 0) 0) = Some h \<and>
      radius_at hitbox_circle_radius 22 (mkFeature (scenario_records ! 0) 0) = Some h' \<and>
      radius_at glow_circle_radius 0 (mkFeature (scenario_records ! 0) 0) = Some g \<and>
      radius_at glow_circle_radius 22 (mkFeature (scenario_records ! 0) 0) = Some g' \<and>
      radius_at point_circle_radius 0 (mkFeature (scenario_records ! 0) 0) = Some p \<and>
      radius_at point_circle_radius 22 (mkFeature (scenario_records ! 0) 0) = Some p' \<and>
      h \<le> h' \<and> g \<le> g' \<and> p \<le> p' \<and> g < h \<and> p < h)"
proof -
  have le: "(0::real) \<le> 22" by simp
  from circle_radius_monotone_hitbox_largest [OF le, of "mkFeature (scenario_records ! 0) 0"]
  show ?thesis using le by blast
qed

section \<open>Properties of the Selection Controller\<close>

lemma property_of_own:
  "k \<in> {''url'', ''blurData'', ''width'', ''height''} \<Longrightarrow>
   property_of feature k =
     (case properties feature of
        None \<Rightarrow> Undefined
      | Some ps \<Rightarrow> (case ps k of None \<Rightarrow> Undefined | Some v \<Rightarrow> v))"
  by (auto simp add: property_of_def get_property_def Object_prototype_keys_def
      split: option.splits)

lemma onClick_point:
  "ev_features event = Some (feature # rest) \<Longrightarrow> geometry feature = Point cs \<Longrightarrow>
   onClick event prev =
     Some \<lparr> pi_longitude = index_js cs 0, pi_latitude = index_js cs 1,
            pi_url = property_of feature ''url'',
            pi_blurData = property_of feature ''blurData'',
            pi_width = property_of feature ''width'',
            pi_height = property_of feature ''height'' \<rparr>"
  by (simp add: onClick_def first_feature_def)

lemma onClick_nothing:
  "ev_features event = None \<or> ev_features event = Some [] \<Longrightarrow> onClick event prev = None"
  by (auto simp add: onClick_def first_feature_def)

lemma onClick_not_point:
  "ev_features event = Some (feature # rest) \<Longrightarrow> \<forall>cs. geometry feature \<noteq> Point cs \<Longrightarrow>
   onClick event prev = None"
  by (cases "geometry feature") (simp_all add: onClick_def first_feature_def)

lemma render_popup_at_most_one: "length (render_popup st) \<le> 1"
  by (simp add: render_popup_def split: option.splits)

text \<open>
  Claim C4. On a click, whatever the selection was before: if the first hit feature
  exists and its geometry is a point, the selection becomes that feature's longitude and
  latitude (the first two coordinates) with its url, blur placeholder, width and height,
  and the one popup rendered shows these; if nothing is hit, or the first hit feature is
  not a point, the selection becomes empty and no popup is rendered. In every state at
  most one popup is rendered.
\<close>

theorem onClick_selects_hit_feature:
  "(ev_features event = Some (feature # rest) \<and> geometry feature = Point cs \<longrightarrow>
      onClick event prev =
        Some \<lparr> pi_longitude = index_js cs 0, pi_latitude = index_js cs 1,
               pi_url = property_of feature ''url'',
               pi_blurData = property_of feature ''blurData'',
               pi_width = property_of feature ''width'',
               pi_height = property_of feature ''height'' \<rparr> \<and>
      render_popup (onClick event prev) =
        [\<lparr> pv_longitude = index_js cs 0, pv_latitude = index_js cs 1,
           pv_anchor = ''bottom'', pv_closeOnClick = False, pv_offset = (0, -15),
           img_src = property_of feature ''url'', img_placeholder = ''blur'',
           img_blurDataURL = nullish (property_of feature ''blurData'') (Str []),
           img_width = property_of feature ''width'',
           img_height = property_of feature ''height'' \<rparr>]) \<and>
   (ev_features event = None \<or> ev_features event = Some [] \<longrightarrow>
      onClick event prev = None \<and> render_popup (onClick event prev) = []) \<and>
   (ev_features event = Some (feature # rest) \<and> (\<forall>cs. geometry feature \<noteq> Point cs) \<longrightarrow>
      onClick event prev = None \<and> render_popup (onClick event prev) = []) \<and>
   length (render_popup st) \<le> 1"
proof (intro conjI impI)
  assume a: "ev_features event = Some (feature # rest) \<and> geometry feature = Point cs"
  then show sel: "onClick event prev =
        Some \<lparr> pi_longitude = index_js cs 0, pi_latitude = index_js cs 1,
               pi_url = property_of feature ''url'',
               pi_blurData = property_of feature ''blurData'',
               pi_width = property_of feature ''width'',
               pi_height = property_of feature ''height'' \<rparr>"
    by (simp add: onClick_point)
  show "render_popup (onClick event prev) =
        [\<lparr> pv_longitude = index_js cs 0, pv_latitude = index_js cs 1,
           pv_anchor = ''bottom'', pv_closeOnClick = False, pv_offset = (0, -15),
           img_src = property_of feature ''url'', img_placeholder = ''blur'',
           img_blurDataURL = nullish (property_of feature ''blurData'') (Str []),
           img_width = property_of feature ''width'',
           img_height = property_of feature ''height'' \<rparr>]"
    by (simp add: sel render_popup_def)
next
  assume b: "ev_features event = None \<or> ev_features event = Some []"
  then show n: "onClick event prev = None" by (rule onClick_nothing)
  show "render_popup (onClick event prev) = []" by (simp add: n render_popup_def)
next
  assume c: "ev_features event = Some (feature # rest) \<and> (\<forall>cs. geometry feature \<noteq> Point cs)"
  then show n: "onClick event prev = None" by (simp add: onClick_not_point)
  show "render_popup (onClick event prev) = []" by (simp add: n render_popup_def)
next
  show "length (render_popup st) \<le> 1" by (rule render_popup_at_most_one)
qed

text \<open>
  A click that hits the second feature above the first one while the first one is
  selected, a click on empty space, and a click on a line.
\<close>

theorem onClick_selects_hit_feature_witness:
  "onClick \<lparr>ev_features = Some [hit_feature_1, hit_feature_0]\<rparr>
     (onClick \<lparr>ev_features = Some [hit_feature_0]\<rparr> None) =
     Some \<lparr> pi_longitude = Num (12147 / 100), pi_latitude = Num (3123 / 100),
            pi_url = Str ''b.jpg'', pi_blurData = Str ''data:image/png;base64,AAAA'',
            pi_width = Num 50, pi_height = Num 50 \<rparr> \<and>
   onClick \<lparr>ev_features = Some []\<rparr> (onClick \<lparr>ev_features = Some [hit_feature_0]\<rparr> None)
     = None \<and>
   onClick \<lparr>ev_features = Some [hit_line, hit_feature_0]\<rparr>
     (onClick \<lparr>ev_features = Some [hit_feature_0]\<rparr> None) = None"
proof -
  let ?prev = "onClick \<lparr>ev_features = Some [hit_feature_0]\<rparr> None"
  have g1: "geometry hit_feature_1 = Point [12147 / 100, 3123 / 100]"
    by (simp add: hit_feature_1_def)
  have gl: "\<forall>cs. geometry hit_line \<noteq> Point cs" by (simp add: hit_line_def)
  have p1: "property_of hit_feature_1 ''url'' = Str ''b.jpg''"
    "property_of hit_feature_1 ''blurData'' = Str ''data:image/png;base64,AAAA''"
    "property_of hit_feature_1 ''width'' = Num 50"
    "property_of hit_feature_1 ''height'' = Num 50"
    by (simp_all add: property_of_def get_property_def hit_feature_1_def)
  from onClick_selects_hit_feature
         [of "\<lparr>ev_features = Some [hit_feature_1, hit_feature_0]\<rparr>" hit_feature_1
             "[hit_feature_0]" "[12147 / 100, 3123 / 100]" ?prev]
  have "onClick \<lparr>ev_features = Some [hit_feature_1, hit_feature_0]\<rparr> ?prev =
     Some \<lparr> pi_longitude = Num (12147 / 100), pi_latitude = Num (3123 / 100),
            pi_url = Str ''b.jpg'', pi_blurData = Str ''data:image/png;base64,AAAA'',
            pi_width = Num 50, pi_height = Num 50 \<rparr>"
    using g1 p1 by (simp add: index_js_def)
  moreover from onClick_selects_hit_feature [of "\<lparr>ev_features = Some []\<rparr>" _ _ _ ?prev]
  have "onClick \<lparr>ev_features = Some []\<rparr> ?prev = None" by simp
  moreover from onClick_selects_hit_feature
         [of "\<lparr>ev_features = Some [hit_line, hit_feature_0]\<rparr>" hit_line
             "[hit_feature_0]" _ ?prev]
  have "onClick \<lparr>ev_features = Some [hit_line, hit_feature_0]\<rparr> ?prev = None"
    using gl by simp
  ultimately show ?thesis by simp
qed

text \<open>
  Claim C10. The popup of a selection shows one image, whose blur placeholder is the empty
  string when the selection's blur placeholder is undefined or null, and the recorded
  value otherwise.
\<close>

theorem popup_blur_fallback:
  "(pi_blurData info = Undefined \<or> pi_blurData info = Null \<longrightarrow>
      map img_blurDataURL (render_popup (Some info)) = [Str []]) \<and>
   (pi_blurData info \<noteq> Undefined \<and> pi_blurData info \<noteq> Null \<longrightarrow>
      map img_blurDataURL (render_popup (Some info)) = [pi_blurData info])"
  by (simp add: render_popup_def nullish_def)

text \<open>
  The selections made by a click on the first feature, which has no blur placeholder, and
  on the second, which has one; and a selection whose blur placeholder is null.
\<close>

theorem popup_blur_fallback_witness:
  "map img_blurDataURL (render_popup (onClick \<lparr>ev_features = Some [hit_feature_0]\<rparr> None))
     = [Str []] \<and>
   map img_blurDataURL (render_popup (onClick \<lparr>ev_features = Some [hit_feature_1]\<rparr> None))
     = [Str ''data:image/png;base64,AAAA''] \<and>
   map img_blurDataURL
     (render_popup (Some \<lparr> pi_longitude = Num 0, pi_latitude = Num 0, pi_url = Str ''a.jpg'',
                            pi_blurData = Null, pi_width = Num 1, pi_height = Num 1 \<rparr>))
     = [Str []]"
proof -
  let ?i0 = "\<lparr> pi_longitude = Num (11638 / 100), pi_latitude = Num (399 / 10),
               pi_url = Str ''a.jpg'', pi_blurData = Undefined,
               pi_width = Num 100, pi_height = Num 200 \<rparr>"
  let ?i1 = "\<lparr> pi_longitude = Num (12147 / 100), pi_latitude = Num (3123 / 100),
               pi_url = Str ''b.jpg'', pi_blurData = Str ''data:image/png;base64,AAAA'',
               pi_width = Num 50, pi_height = Num 50 \<rparr>"
  let ?i2 = "\<lparr> pi_longitude = Num 0, pi_latitude = Num 0, pi_url = Str ''a.jpg'',
               pi_blurData = Null, pi_width = Num 1, pi_height = Num 1 \<rparr>"
  have c0: "onClick \<lparr>ev_features = Some [hit_feature_0]\<rparr> None = Some ?i0"
    by (simp add: onClick_def first_feature_def hit_feature_0_def index_js_def
        property_of_def get_property_def Object_prototype_keys_def)
  have c1: "onClick \<lparr>ev_features = Some [hit_feature_1]\<rparr> None = Some ?i1"
    by (simp add: onClick_def first_feature_def hit_feature_1_def index_js_def
        property_of_def get_property_def)
  from popup_blur_fallback [of ?i0]
  have "map img_blurDataURL (render_popup (Some ?i0)) = [Str []]" by simp
  moreover from popup_blur_fallback [of ?i1]
  have "map img_blurDataURL (render_popup (Some ?i1)) = [Str ''data:image/png;base64,AAAA'']"
    by simp
  moreover from popup_blur_fallback [of ?i2]
  have "map img_blurDataURL (render_popup (Some ?i2)) = [Str []]" by simp
  ultimately show ?thesis by (simp only: c0 c1) 
qed

section \<open>Properties of Environment Sync\<close>

lemma getPropertyValue_setProperty:
  "getPropertyValue (setProperty st n v) m = (if m = n then v else getPropertyValue st m)"
  by (simp add: getPropertyValue_def setProperty_def)

lemma themeEffect_cleanup:
  "getPropertyValue (snd (themeEffect t st) r) n =
     (if n = ''--background'' \<or> n = ''--foreground'' then getPropertyValue st n
      else getPropertyValue r n)"
  by (simp add: themeEffect_def Let_def getPropertyValue_setProperty)

lemma themeEffect_apply:
  "getPropertyValue (fst (themeEffect t st)) n =
     (if n = ''--foreground'' then (if t = Some ''dark'' then ''#f0f0f0'' else ''#333333'')
      else if n = ''--background'' then (if t = Some ''dark'' then ''#333333'' else ''#f5f5f5'')
      else getPropertyValue st n)"
  by (simp add: themeEffect_def Let_def getPropertyValue_setProperty)

lemma themeEffect_once:
  "getPropertyValue (snd (themeEffect t st) (fst (themeEffect t st))) n =
     getPropertyValue st n"
  by (simp add: themeEffect_cleanup themeEffect_apply)

lemma theme_lifecycle_restores:
  "getPropertyValue (theme_lifecycle st ts) n = getPropertyValue st n"
proof (induction ts arbitrary: st)
  case Nil
  show ?case by simp
next
  case (Cons t ts)
  obtain st' cleanup where e: "themeEffect t st = (st', cleanup)"
    by (cases "themeEffect t st")
  have "getPropertyValue (theme_lifecycle st (t # ts)) n = getPropertyValue (cleanup st') n"
    using e Cons.IH [of "cleanup st'"] by simp
  also have "\<dots> = getPropertyValue st n"
    using themeEffect_once [of t st n] e by simp
  finally show ?case .
qed

text \<open>
  Claim C5. The override is a scoped round trip. Running the cleanup of the effect on the
  root style the effect produced gives back, for every property, the value read before
  the override; on any root style the cleanup sets the two variables to the values that
  were recorded when the effect ran, whatever they were; and after any sequence of themes,
  each followed by its cleanup, every property reads as it did at the start.
\<close>

theorem themeEffect_round_trip:
  "getPropertyValue (snd (themeEffect t st) (fst (themeEffect t st))) n =
     getPropertyValue st n \<and>
   getPropertyValue (snd (themeEffect t st) r) ''--background'' =
     getPropertyValue st ''--background'' \<and>
   getPropertyValue (snd (themeEffect t st) r) ''--foreground'' =
     getPropertyValue st ''--foreground'' \<and>
   getPropertyValue (theme_lifecycle st ts) n = getPropertyValue st n"
  by (intro conjI themeEffect_once theme_lifecycle_restores)
     (simp_all add: themeEffect_cleanup)

section \<open>Properties of the locale-conditional control attachment\<close>






end
